theory Spec2Isabelle
  imports Main "HOL-Library.Sublist"
begin

section \<open>Farcaster Connect message verification (messages/verify.ts)\<close>

subsection \<open>JavaScript values the pipeline handles\<close>

text \<open>A JavaScript \<^verbatim>\<open>Error\<close> object, identified by its message.\<close>

datatype JsError = JsError string

text \<open>
  A settled promise, and the outcome of calling a function whose type says it returns a
  promise: such a function either throws before it has returned anything, or returns a
  promise that later resolves or rejects.
\<close>

datatype 'a promise = Resolved 'a | Rejected JsError

datatype 'a call = Throws JsError | Returned "'a promise"

text \<open>
  \<^verbatim>\<open>new ConnectError(code, context)\<close>: the error code is a string literal in the source,
  the context is either a message string or a wrapped \<^verbatim>\<open>Error\<close>.
\<close>

datatype ErrContext = Message string | Cause JsError

datatype ConnectError = ConnectError (errCode: string) (errContext: ErrContext)

text \<open>neverthrow's \<^verbatim>\<open>Result\<close>: \<^verbatim>\<open>err(e)\<close> is \<open>Inl e\<close>, \<^verbatim>\<open>ok(v)\<close> is \<open>Inr v\<close>.\<close>

type_synonym 'a ConnectResult = "ConnectError + 'a"

definition andThen :: "'e + 'a \<Rightarrow> ('a \<Rightarrow> 'e + 'b) \<Rightarrow> 'e + 'b" where
  "andThen r f = (case r of Inl e \<Rightarrow> Inl e | Inr v \<Rightarrow> f v)"

text \<open>The fields of a sign-in message (siwe's \<^verbatim>\<open>SiweMessage\<close>).\<close>

record SiweMessage =
  domain :: string
  address :: string
  statement :: "string option"
  uri :: string
  version :: string
  chainId :: int
  nonce :: string
  issuedAt :: "string option"
  expirationTime :: "string option"
  resources :: "string list option"

text \<open>\<^verbatim>\<open>new SiweError(type, expected, received)\<close>.\<close>

datatype SiweError = SiweError (type: string) (expected: "string option") (received: "string option")

text \<open>
  \<^verbatim>\<open>SiweResponse = { success, error?, data }\<close>. The record is declared in two layers so that
  \<^verbatim>\<open>Omit<SiweResponse, "error">\<close> is the lower layer, and an intersection with further
  fields is the record with those fields in its extension slot.
\<close>

record SiweResponseOmitError =
  success :: bool
  data :: SiweMessage

record SiweResponse = SiweResponseOmitError +
  error :: "SiweError option"

text \<open>
  Modelled from the spec: \<^verbatim>\<open>FarcasterResourceParams\<close> is declared in \<^verbatim>\<open>./build\<close>, which is
  not among the sources; the specification gives the claimed identifier \<^verbatim>\<open>fid\<close> as an
  unsigned integer.
\<close>

record FarcasterResourceParams =
  fid :: nat

text \<open>\<^verbatim>\<open>SiweResponse & FarcasterResourceParams\<close> and \<^verbatim>\<open>VerifyResponse\<close>.\<close>

type_synonym MergedResponse = "FarcasterResourceParams SiweResponse_scheme"

type_synonym VerifyResponse = "FarcasterResourceParams SiweResponseOmitError_scheme"

text \<open>\<^verbatim>\<open>SignInOpts\<close>; the ethers provider is opaque.\<close>

record 'p SignInOpts =
  getFid :: "string \<Rightarrow> int call"
  provider :: "'p option"

text \<open>
  What \<^verbatim>\<open>verify\<close> calls but this file does not define: \<^verbatim>\<open>validate\<close> and
  \<^verbatim>\<open>parseResources\<close> of \<^verbatim>\<open>./validate\<close>, and the method \<^verbatim>\<open>message.verify\<close> of the siwe
  library, called as \<^verbatim>\<open>message.verify({ signature }, { provider, suppressExceptions: true })\<close>.
\<close>

record ('i, 'p) externals =
  validate :: "'i \<Rightarrow> SiweMessage ConnectResult"
  parseResources :: "SiweMessage \<Rightarrow> FarcasterResourceParams ConnectResult"
  message_verify :: "SiweMessage \<Rightarrow> string \<Rightarrow> 'p option \<Rightarrow> SiweResponse call"

text \<open>The effects of a run, in the order they happen.\<close>

datatype event =
  MessageVerify string
  | ConsoleLog
  | FidVerifier string
  | FidCompare int int

subsection \<open>Number formatting\<close>

text \<open>\<^verbatim>\<open>toString()\<close> of an integer value, and \<^verbatim>\<open>BigInt(n)\<close> of an integral number.\<close>

fun nat_toString :: "nat \<Rightarrow> string" where
  "nat_toString n =
     (if n < 10 then [''0123456789'' ! n]
      else nat_toString (n div 10) @ [''0123456789'' ! (n mod 10)])"

declare nat_toString.simps [simp del]

definition bigint_toString :: "int \<Rightarrow> string" where
  "bigint_toString i = (if i < 0 then ''-'' @ nat_toString (nat (- i)) else nat_toString (nat i))"

definition BigInt :: "nat \<Rightarrow> int" where
  "BigInt n = int n"

subsection \<open>The functions of verify.ts\<close>

definition voidVerifyFid :: "string \<Rightarrow> int call" where
  "voidVerifyFid custody =
     Returned (Rejected (JsError ''Not implemented: Must provide an fid verifier''))"

definition validateNonce :: "SiweMessage \<Rightarrow> string \<Rightarrow> SiweMessage ConnectResult" where
  "validateNonce message nonce' =
     (if nonce message \<noteq> nonce' then Inl (ConnectError ''unauthorized'' (Message ''Invalid nonce''))
      else Inr message)"

definition validateDomain :: "SiweMessage \<Rightarrow> string \<Rightarrow> SiweMessage ConnectResult" where
  "validateDomain message domain' =
     (if domain message \<noteq> domain' then Inl (ConnectError ''unauthorized'' (Message ''Invalid domain''))
      else Inr message)"

text \<open>
  \<^verbatim>\<open>verifySiweMessage\<close> is an async function around \<^verbatim>\<open>ResultAsync.fromPromise\<close>: a
  rejection of the promise becomes an \<^verbatim>\<open>unauthorized\<close> error value; an exception thrown
  while the argument \<^verbatim>\<open>message.verify(...)\<close> is evaluated is not handled by
  \<^verbatim>\<open>fromPromise\<close> and rejects the async function's own promise.
\<close>

definition verifySiweMessage ::
  "('i, 'p) externals \<Rightarrow> SiweMessage \<Rightarrow> string \<Rightarrow> 'p option
     \<Rightarrow> event list \<times> SiweResponse ConnectResult promise" where
  "verifySiweMessage E message signature provider' =
     ([MessageVerify signature],
      case message_verify E message signature provider' of
        Throws x \<Rightarrow> Rejected x
      | Returned (Rejected e) \<Rightarrow> Resolved (Inl (ConnectError ''unauthorized'' (Cause e)))
      | Returned (Resolved response) \<Rightarrow> Resolved (Inr response))"

text \<open>
  \<^verbatim>\<open>mergeResources\<close>: \<^verbatim>\<open>{ ...resources, ...response }\<close> has the fields of the response and
  the resource fields beside them (the two types have no field in common, so the order
  of the spread does not show).
\<close>

definition mergeResources :: "('i, 'p) externals \<Rightarrow> SiweResponse \<Rightarrow> MergedResponse ConnectResult" where
  "mergeResources E response =
     andThen (parseResources E (data response))
       (\<lambda>resources. Inr (SiweResponse.extend response resources))"

text \<open>
  \<^verbatim>\<open>verifyFidOwner\<close> assigns to the fields of \<^verbatim>\<open>response\<close> and returns the same object:
  the model returns the updated record, which is also what the caller's reference
  denotes afterwards.
\<close>

definition ownershipError :: "MergedResponse \<Rightarrow> int \<Rightarrow> SiweError" where
  "ownershipError response fid' =
     SiweError
       (''Invalid resource: signer '' @ address (data response) @ '' does not own fid ''
          @ nat_toString (fid (SiweResponse.more response)) @ ''.'')
       (Some (nat_toString (fid (SiweResponse.more response))))
       (Some (bigint_toString fid'))"

definition verifyFidOwner ::
  "MergedResponse \<Rightarrow> (string \<Rightarrow> int call) \<Rightarrow> event list \<times> MergedResponse ConnectResult promise" where
  "verifyFidOwner response fidVerifier =
     (let signer = address (data response) in
      case fidVerifier signer of
        Throws x \<Rightarrow> ([FidVerifier signer], Rejected x)
      | Returned (Rejected e) \<Rightarrow>
          ([FidVerifier signer], Resolved (Inl (ConnectError ''unavailable'' (Cause e))))
      | Returned (Resolved fid') \<Rightarrow>
          ([FidVerifier signer, FidCompare fid' (BigInt (fid (SiweResponse.more response)))],
           Resolved (Inr
             (if fid' \<noteq> BigInt (fid (SiweResponse.more response))
              then response\<lparr>success := False, error := Some (ownershipError response fid')\<rparr>
              else response))))"

text \<open>\<^verbatim>\<open>x.error?.type ?? fallback\<close>.\<close>

definition errorTypeOr :: "SiweError option \<Rightarrow> string \<Rightarrow> string" where
  "errorTypeOr e fallback = (case e of None \<Rightarrow> fallback | Some x \<Rightarrow> type x)"

text \<open>\<^verbatim>\<open>const { error, ...response } = fid.value\<close>.\<close>

definition omitError :: "MergedResponse \<Rightarrow> VerifyResponse" where
  "omitError v = \<lparr>success = success v, data = data v, \<dots> = SiweResponse.more v\<rparr>"

text \<open>The default value of the parameter \<^verbatim>\<open>options\<close>, used when the argument is omitted.\<close>

definition defaultOptions :: "'p SignInOpts" where
  "defaultOptions = \<lparr>getFid = voidVerifyFid, provider = None\<rparr>"

text \<open>
  The part of \<^verbatim>\<open>verify\<close> from the ownership check on (lines 45 to 52). Line 48 reads
  \<^verbatim>\<open>siwe.value.error\<close>; \<^verbatim>\<open>siwe.value\<close> is the object \<^verbatim>\<open>verifyFidOwner\<close> has assigned to
  and returned, that is \<^verbatim>\<open>fid.value\<close>.
\<close>

definition verifyOwnership ::
  "MergedResponse \<Rightarrow> (string \<Rightarrow> int call) \<Rightarrow> event list \<times> VerifyResponse ConnectResult promise" where
  "verifyOwnership siwe getFid' =
     (case verifyFidOwner siwe getFid' of
        (t, Rejected x) \<Rightarrow> (t, Rejected x)
      | (t, Resolved (Inl e)) \<Rightarrow> (t, Resolved (Inl e))
      | (t, Resolved (Inr fidValue)) \<Rightarrow>
          if \<not> success fidValue
          then (t, Resolved (Inl (ConnectError ''unauthorized''
                  (Message (errorTypeOr (error fidValue) ''Failed to validate fid owner'')))))
          else (t, Resolved (Inr (omitError fidValue))))"

text \<open>The part of \<^verbatim>\<open>verify\<close> after the message has been validated (lines 37 to 52).\<close>

definition verifySigned ::
  "('i, 'p) externals \<Rightarrow> SiweMessage \<Rightarrow> string \<Rightarrow> 'p SignInOpts
     \<Rightarrow> event list \<times> VerifyResponse ConnectResult promise" where
  "verifySigned E message signature options =
     (case verifySiweMessage E message signature (provider options) of
        (t, Rejected x) \<Rightarrow> (t, Rejected x)
      | (t, Resolved awaited) \<Rightarrow>
          (case andThen awaited (mergeResources E) of
             Inl e \<Rightarrow> (t, Resolved (Inl e))
           | Inr siwe \<Rightarrow>
               if \<not> success siwe
               then (t @ [ConsoleLog],
                     Resolved (Inl (ConnectError ''unauthorized''
                       (Message (errorTypeOr (error siwe) ''Failed to verify SIWE message'')))))
               else (case verifyOwnership siwe (getFid options) of
                       (t', r) \<Rightarrow> (t @ t', r))))"

definition optionsOrDefault :: "'p SignInOpts option \<Rightarrow> 'p SignInOpts" where
  "optionsOrDefault options = (case options of None \<Rightarrow> defaultOptions | Some given \<Rightarrow> given)"

text \<open>
  \<^verbatim>\<open>verify\<close>. The result pairs the effects of the run with the state of the promise the
  async function returns: \<open>Resolved\<close> with a \<^verbatim>\<open>Result\<close>, or \<open>Rejected\<close> when an
  exception leaves the function.
\<close>

definition verify ::
  "('i, 'p) externals \<Rightarrow> string \<Rightarrow> string \<Rightarrow> 'i \<Rightarrow> string \<Rightarrow> 'p SignInOpts option
     \<Rightarrow> event list \<times> VerifyResponse ConnectResult promise" where
  "verify E nonce' domain' message signature options =
     (let opts = optionsOrDefault options;
          valid = andThen (andThen (validate E message)
                    (\<lambda>message. validateNonce message nonce'))
                    (\<lambda>message. validateDomain message domain')
      in case valid of
           Inl e \<Rightarrow> ([], Resolved (Inl e))
         | Inr validMessage \<Rightarrow> verifySigned E validMessage signature opts)"

subsection \<open>Concrete runs\<close>

text \<open>
  The scenario of the specification: nonce \<^verbatim>\<open>n1\<close>, domain \<^verbatim>\<open>example.com\<close>, a message signed
  by the address \<^verbatim>\<open>0xA\<close> that claims fid 42, and an oracle that resolves with a given fid.
\<close>

definition scenarioMessage :: SiweMessage where
  "scenarioMessage = \<lparr>domain = ''example.com'', address = ''0xA'', statement = None,
     uri = ''https://example.com/login'', version = ''1'', chainId = 10, nonce = ''n1'',
     issuedAt = None, expirationTime = None, resources = Some [''farcaster://fid/42'']\<rparr>"

definition scenarioExternals :: "(unit, unit) externals" where
  "scenarioExternals = \<lparr>validate = (\<lambda>_. Inr scenarioMessage),
     parseResources = (\<lambda>_. Inr \<lparr>fid = 42\<rparr>),
     message_verify = (\<lambda>m _ _. Returned (Resolved \<lparr>success = True, data = m, error = None\<rparr>))\<rparr>"

definition resolver :: "int \<Rightarrow> unit SignInOpts" where
  "resolver f = \<lparr>getFid = (\<lambda>_. Returned (Resolved f)), provider = None\<rparr>"

definition scenarioResponse :: VerifyResponse where
  "scenarioResponse = \<lparr>success = True, data = scenarioMessage, \<dots> = \<lparr>fid = 42\<rparr>\<rparr>"

text \<open>
  A message without an fid resource whose signature does not verify, with a resource
  parser that fails on it; and the scenario's message with a signature that does not
  verify.
\<close>

definition unclaimedMessage :: SiweMessage where
  "unclaimedMessage = scenarioMessage\<lparr>resources := None\<rparr>"

definition failedResponse :: "SiweMessage \<Rightarrow> SiweResponse" where
  "failedResponse m = \<lparr>success = False, data = m,
     error = Some (SiweError ''Signature does not match address of the message.'' None None)\<rparr>"

definition unsignedExternals :: "(unit, unit) externals" where
  "unsignedExternals = \<lparr>validate = (\<lambda>_. Inr unclaimedMessage),
     parseResources = (\<lambda>_. Inl (ConnectError ''malformed'' (Message ''No fid resource provided''))),
     message_verify = (\<lambda>m _ _. Returned (Resolved (failedResponse m)))\<rparr>"

definition forgedExternals :: "(unit, unit) externals" where
  "forgedExternals = scenarioExternals\<lparr>message_verify := (\<lambda>m _ _. Returned (Resolved (failedResponse m)))\<rparr>"

text \<open>An oracle that throws before returning a promise, and one whose promise rejects.\<close>

definition throwingOptions :: "unit SignInOpts" where
  "throwingOptions = \<lparr>getFid = (\<lambda>_. Throws (JsError ''registry client is not connected'')), provider = None\<rparr>"

definition rejectingOptions :: "unit SignInOpts" where
  "rejectingOptions = \<lparr>getFid = (\<lambda>_. Returned (Rejected (JsError ''request timed out''))), provider = None\<rparr>"

text \<open>
  The claimed fid 2 to the power 53, which the next integer would equal after rounding to
  a double; and the scenario with the claimed fid 0.
\<close>

definition largeFidResponse :: MergedResponse where
  "largeFidResponse = \<lparr>success = True, data = scenarioMessage, error = None,
     \<dots> = \<lparr>fid = 9007199254740992\<rparr>\<rparr>"

definition zeroFidExternals :: "(unit, unit) externals" where
  "zeroFidExternals = scenarioExternals\<lparr>parseResources := (\<lambda>_. Inr \<lparr>fid = 0\<rparr>)\<rparr>"

section \<open>Properties\<close>

subsection \<open>The pipeline, step by step\<close>

lemma verify_validated:
  "validate E msg = Inr m \<Longrightarrow> nonce m = n \<Longrightarrow> domain m = d \<Longrightarrow>
   verify E n d msg sig options = verifySigned E m sig (optionsOrDefault options)"
  by (simp add: verify_def andThen_def validateNonce_def validateDomain_def)

lemma verify_invalid:
  "validate E msg = Inl e \<Longrightarrow> verify E n d msg sig options = ([], Resolved (Inl e))"
  by (simp add: verify_def andThen_def)

lemma verify_bad_nonce:
  "validate E msg = Inr m \<Longrightarrow> nonce m \<noteq> n \<Longrightarrow>
   verify E n d msg sig options = ([], Resolved (Inl (ConnectError ''unauthorized'' (Message ''Invalid nonce''))))"
  by (simp add: verify_def andThen_def validateNonce_def)

lemma verify_bad_domain:
  "validate E msg = Inr m \<Longrightarrow> nonce m = n \<Longrightarrow> domain m \<noteq> d \<Longrightarrow>
   verify E n d msg sig options = ([], Resolved (Inl (ConnectError ''unauthorized'' (Message ''Invalid domain''))))"
  by (simp add: verify_def andThen_def validateNonce_def validateDomain_def)

lemma verifySigned_parse_failure:
  "message_verify E m sig (provider opts) = Returned (Resolved response) \<Longrightarrow>
   parseResources E (data response) = Inl e \<Longrightarrow>
   verifySigned E m sig opts = ([MessageVerify sig], Resolved (Inl e))"
  by (simp add: verifySigned_def verifySiweMessage_def andThen_def mergeResources_def)

lemma verifySigned_not_success:
  "message_verify E m sig (provider opts) = Returned (Resolved response) \<Longrightarrow>
   parseResources E (data response) = Inr res \<Longrightarrow> \<not> success response \<Longrightarrow>
   verifySigned E m sig opts = ([MessageVerify sig, ConsoleLog],
     Resolved (Inl (ConnectError ''unauthorized''
        (Message (errorTypeOr (error response) ''Failed to verify SIWE message'')))))"
  by (simp add: verifySigned_def verifySiweMessage_def andThen_def mergeResources_def SiweResponse.extend_def)

lemma verifySigned_success:
  "message_verify E m sig (provider opts) = Returned (Resolved response) \<Longrightarrow>
   parseResources E (data response) = Inr res \<Longrightarrow> success response \<Longrightarrow>
   verifySigned E m sig opts =
     (MessageVerify sig # fst (verifyOwnership (SiweResponse.extend response res) (getFid opts)),
      snd (verifyOwnership (SiweResponse.extend response res) (getFid opts)))"
  by (simp add: verifySigned_def verifySiweMessage_def andThen_def mergeResources_def SiweResponse.extend_def split: prod.splits)

lemma verifySigned_rejected:
  "message_verify E m sig (provider opts) = Returned (Rejected e) \<Longrightarrow>
   verifySigned E m sig opts = ([MessageVerify sig], Resolved (Inl (ConnectError ''unauthorized'' (Cause e))))"
  by (simp add: verifySigned_def verifySiweMessage_def andThen_def)

lemma verifySigned_throws:
  "message_verify E m sig (provider opts) = Throws x \<Longrightarrow>
   verifySigned E m sig opts = ([MessageVerify sig], Rejected x)"
  by (simp add: verifySigned_def verifySiweMessage_def)

lemma verifyOwnership_throws:
  "g (address (data siwe)) = Throws x \<Longrightarrow>
   verifyOwnership siwe g = ([FidVerifier (address (data siwe))], Rejected x)"
  by (simp add: verifyOwnership_def verifyFidOwner_def)

lemma verifyOwnership_rejected:
  "g (address (data siwe)) = Returned (Rejected e) \<Longrightarrow>
   verifyOwnership siwe g = ([FidVerifier (address (data siwe))],
      Resolved (Inl (ConnectError ''unavailable'' (Cause e))))"
  by (simp add: verifyOwnership_def verifyFidOwner_def)

lemma verifyOwnership_match:
  "g (address (data siwe)) = Returned (Resolved f) \<Longrightarrow> f = BigInt (fid (SiweResponse.more siwe)) \<Longrightarrow>
   success siwe \<Longrightarrow>
   verifyOwnership siwe g = ([FidVerifier (address (data siwe)), FidCompare f (BigInt (fid (SiweResponse.more siwe)))],
      Resolved (Inr (omitError siwe)))"
  by (simp add: verifyOwnership_def verifyFidOwner_def)

lemma verifyOwnership_mismatch:
  "g (address (data siwe)) = Returned (Resolved f) \<Longrightarrow> f \<noteq> BigInt (fid (SiweResponse.more siwe)) \<Longrightarrow>
   verifyOwnership siwe g = ([FidVerifier (address (data siwe)), FidCompare f (BigInt (fid (SiweResponse.more siwe)))],
      Resolved (Inl (ConnectError ''unauthorized'' (Message (type (ownershipError siwe f))))))"
  by (simp add: verifyOwnership_def verifyFidOwner_def errorTypeOr_def)

lemma extend_fields:
  "success (SiweResponse.extend r x) = success r"
  "data (SiweResponse.extend r x) = data r"
  "error (SiweResponse.extend r x) = error r"
  "SiweResponse.more (SiweResponse.extend r x) = x"
  by (simp_all add: SiweResponse.extend_def)

lemma verify_success_only_if:
  assumes "snd (verify E n d msg sig options) = Resolved (Inr r)"
  shows "\<exists>m response res.
           validate E msg = Inr m \<and> nonce m = n \<and> domain m = d \<and>
           message_verify E m sig (provider (optionsOrDefault options)) = Returned (Resolved response) \<and>
           success response \<and>
           parseResources E (data response) = Inr res \<and>
           getFid (optionsOrDefault options) (address (data response)) = Returned (Resolved (BigInt (fid res))) \<and>
           r = omitError (SiweResponse.extend response res)"
proof (cases "validate E msg")
  case (Inl e)
  with assms show ?thesis by (simp add: verify_invalid)
next
  case (Inr m)
  let ?opts = "optionsOrDefault options"
  have n: "nonce m = n"
    using assms Inr by (cases "nonce m = n") (simp_all add: verify_bad_nonce)
  have d: "domain m = d"
    using assms Inr n by (cases "domain m = d") (simp_all add: verify_bad_domain)
  have signed: "snd (verifySigned E m sig ?opts) = Resolved (Inr r)"
    using assms by (simp add: verify_validated [OF Inr n d])
  obtain response where mv: "message_verify E m sig (provider ?opts) = Returned (Resolved response)"
  proof (cases "message_verify E m sig (provider ?opts)")
    case (Throws x)
    with signed show ?thesis by (simp add: verifySigned_throws)
  next
    case (Returned p)
    with signed that show ?thesis by (cases p) (simp_all add: verifySigned_rejected)
  qed
  obtain res where pr: "parseResources E (data response) = Inr res"
    using signed mv by (cases "parseResources E (data response)") (simp_all add: verifySigned_parse_failure)
  have ok: "success response"
    using signed mv pr by (cases "success response") (simp_all add: verifySigned_not_success)
  let ?siwe = "SiweResponse.extend response res"
  have own: "snd (verifyOwnership ?siwe (getFid ?opts)) = Resolved (Inr r)"
    using signed by (simp add: verifySigned_success [OF mv pr ok])
  have addr: "address (data ?siwe) = address (data response)"
    by (simp add: extend_fields)
  have "getFid ?opts (address (data response)) = Returned (Resolved (BigInt (fid res))) \<and> r = omitError ?siwe"
  proof (cases "getFid ?opts (address (data ?siwe))")
    case (Throws x)
    with own show ?thesis by (simp add: verifyOwnership_throws)
  next
    case (Returned p)
    show ?thesis
    proof (cases p)
      case (Rejected e)
      with own Returned show ?thesis by (simp add: verifyOwnership_rejected)
    next
      case (Resolved f)
      show ?thesis
      proof (cases "f = BigInt (fid (SiweResponse.more ?siwe))")
        case True
        have "success ?siwe" using ok by (simp add: extend_fields)
        with own Returned Resolved True show ?thesis
          using verifyOwnership_match [of "getFid ?opts" ?siwe f]
          by (simp add: extend_fields)
      next
        case False
        with own Returned Resolved show ?thesis
          using verifyOwnership_mismatch [of "getFid ?opts" ?siwe f] by simp
      qed
    qed
  qed
  with Inr n d mv ok pr show ?thesis by blast
qed

lemmas scenario_defs = scenarioExternals_def scenarioMessage_def resolver_def scenarioResponse_def
  optionsOrDefault_def defaultOptions_def voidVerifyFid_def
lemmas verify_defs = verify_def verifySigned_def verifyOwnership_def verifyFidOwner_def
  verifySiweMessage_def mergeResources_def andThen_def validateNonce_def validateDomain_def
  errorTypeOr_def omitError_def ownershipError_def BigInt_def SiweResponse.extend_def Let_def

lemma scenario_success:
  "verify scenarioExternals ''n1'' ''example.com'' () ''0xsig'' (Some (resolver 42)) =
     ([MessageVerify ''0xsig'', FidVerifier ''0xA'', FidCompare 42 42], Resolved (Inr scenarioResponse))"
  by (simp add: verify_defs scenario_defs)

lemma scenario_mismatch:
  "verify scenarioExternals ''n1'' ''example.com'' () ''0xsig'' (Some (resolver 43)) =
     ([MessageVerify ''0xsig'', FidVerifier ''0xA'', FidCompare 43 42],
      Resolved (Inl (ConnectError ''unauthorized''
         (Message ''Invalid resource: signer 0xA does not own fid 42.''))))"
  by (simp add: verify_defs scenario_defs nat_toString.simps)

lemmas more_defs = unclaimedMessage_def failedResponse_def unsignedExternals_def forgedExternals_def
  throwingOptions_def rejectingOptions_def




lemma verify_oracle_rejected:
  assumes "validate E msg = Inr m" and "nonce m = n" and "domain m = d"
    and "message_verify E m sig (provider (optionsOrDefault options)) = Returned (Resolved response)"
    and "success response" and "parseResources E (data response) = Inr res"
    and "getFid (optionsOrDefault options) (address (data response)) = Returned (Rejected e)"
  shows "verify E n d msg sig options
     = ([MessageVerify sig, FidVerifier (address (data response))],
        Resolved (Inl (ConnectError ''unavailable'' (Cause e))))"
  using assms verifyOwnership_rejected [of "getFid (optionsOrDefault options)" "SiweResponse.extend response res" e]
  by (simp add: verify_validated verifySigned_success extend_fields)

lemma scenario_pipeline:
  "validate scenarioExternals () = Inr scenarioMessage"
  "nonce scenarioMessage = ''n1''"
  "domain scenarioMessage = ''example.com''"
  "message_verify scenarioExternals scenarioMessage sig p
     = Returned (Resolved \<lparr>success = True, data = scenarioMessage, error = None\<rparr>)"
  "success \<lparr>success = True, data = scenarioMessage, error = None\<rparr>"
  "parseResources scenarioExternals (data \<lparr>success = True, data = scenarioMessage, error = None\<rparr>)
     = Inr \<lparr>fid = 42\<rparr>"
  by (simp_all add: scenarioExternals_def scenarioMessage_def)

lemma scenario_strings:
  "nat_toString 42 = ''42''" "bigint_toString 43 = ''43''" "address scenarioMessage = ''0xA''"
  by (simp_all add: nat_toString.simps bigint_toString_def scenarioMessage_def)

lemma verify_all_passed:
  assumes "validate E msg = Inr m" and "nonce m = n" and "domain m = d"
    and "message_verify E m sig (provider (optionsOrDefault options)) = Returned (Resolved response)"
    and "success response" and "parseResources E (data response) = Inr res"
    and "getFid (optionsOrDefault options) (address (data response))
           = Returned (Resolved (BigInt (fid res)))"
  shows "verify E n d msg sig options
     = ([MessageVerify sig, FidVerifier (address (data response)),
         FidCompare (BigInt (fid res)) (BigInt (fid res))],
        Resolved (Inr \<lparr>success = True, data = data response, \<dots> = res\<rparr>))"
proof -
  let ?siwe = "SiweResponse.extend response res"
  have "verify E n d msg sig options = verifySigned E m sig (optionsOrDefault options)"
    using assms(1-3) by (rule verify_validated)
  moreover have "verifyOwnership ?siwe (getFid (optionsOrDefault options))
      = ([FidVerifier (address (data ?siwe)),
          FidCompare (BigInt (fid res)) (BigInt (fid (SiweResponse.more ?siwe)))],
         Resolved (Inr (omitError ?siwe)))"
    by (rule verifyOwnership_match) (simp_all add: extend_fields assms(5) assms(7))
  moreover have "omitError ?siwe = \<lparr>success = True, data = data response, \<dots> = res\<rparr>"
    by (simp add: omitError_def extend_fields assms(5))
  ultimately show ?thesis
    by (simp add: verifySigned_success [OF assms(4) assms(6) assms(5)] extend_fields)
qed

subsection \<open>The invariant of the result\<close>



subsection \<open>Signature outcome and resource merging\<close>

text \<open>
  C2. The resources are merged into the response of the signature routine before its
  \<^verbatim>\<open>success\<close> flag is read. When the routine resolved and the resources do not parse,
  \<^verbatim>\<open>verify\<close> resolves with the parser's error, whatever the flag says; when they parse and
  the flag is false, it resolves with an \<^verbatim>\<open>unauthorized\<close> error whose message is the type of
  the embedded error, or \<^verbatim>\<open>Failed to verify SIWE message\<close> when there is none. The oracle is
  not called in either case.
\<close>

theorem verify_merges_before_success_check:
  assumes "validate E msg = Inr m" and "nonce m = n" and "domain m = d"
    and "message_verify E m sig (provider (optionsOrDefault options)) = Returned (Resolved response)"
  shows "(\<forall>e. parseResources E (data response) = Inl e \<longrightarrow>
            verify E n d msg sig options = ([MessageVerify sig], Resolved (Inl e)))
       \<and> (\<forall>res. parseResources E (data response) = Inr res \<and> \<not> success response \<longrightarrow>
            verify E n d msg sig options =
              ([MessageVerify sig, ConsoleLog],
               Resolved (Inl (ConnectError ''unauthorized''
                 (Message (errorTypeOr (error response) ''Failed to verify SIWE message''))))))"
  using assms
  by (simp add: verify_validated verifySigned_parse_failure verifySigned_not_success)

theorem verify_merges_before_success_check_witness:
  "verify unsignedExternals ''n1'' ''example.com'' () ''0xsig'' (Some (resolver 42))
     = ([MessageVerify ''0xsig''],
        Resolved (Inl (ConnectError ''malformed'' (Message ''No fid resource provided''))))
   \<and> verify forgedExternals ''n1'' ''example.com'' () ''0xsig'' (Some (resolver 42))
     = ([MessageVerify ''0xsig'', ConsoleLog],
        Resolved (Inl (ConnectError ''unauthorized''
          (Message ''Signature does not match address of the message.''))))"
proof -
  have v1: "validate unsignedExternals () = Inr unclaimedMessage"
    and v2: "validate forgedExternals () = Inr scenarioMessage"
    by (simp_all add: more_defs scenario_defs)
  have n: "nonce unclaimedMessage = ''n1''" "nonce scenarioMessage = ''n1''"
    and d: "domain unclaimedMessage = ''example.com''" "domain scenarioMessage = ''example.com''"
    by (simp_all add: more_defs scenario_defs)
  have m1: "message_verify unsignedExternals unclaimedMessage ''0xsig''
       (provider (optionsOrDefault (Some (resolver 42))))
     = Returned (Resolved (failedResponse unclaimedMessage))"
    by (simp add: unsignedExternals_def)
  have m2: "message_verify forgedExternals scenarioMessage ''0xsig''
       (provider (optionsOrDefault (Some (resolver 42))))
     = Returned (Resolved (failedResponse scenarioMessage))"
    by (simp add: forgedExternals_def)
  have p1: "parseResources unsignedExternals (data (failedResponse unclaimedMessage))
     = Inl (ConnectError ''malformed'' (Message ''No fid resource provided''))"
    by (simp add: unsignedExternals_def)
  have p2: "parseResources forgedExternals (data (failedResponse scenarioMessage)) = Inr \<lparr>fid = 42\<rparr>
     \<and> \<not> success (failedResponse scenarioMessage)"
    by (simp add: forgedExternals_def scenarioExternals_def failedResponse_def)
  have t: "errorTypeOr (error (failedResponse scenarioMessage)) ''Failed to verify SIWE message''
     = ''Signature does not match address of the message.''"
    by (simp add: errorTypeOr_def failedResponse_def)
  note a = verify_merges_before_success_check [OF v1 n(1) d(1) m1, THEN conjunct1, rule_format, OF p1]
  note b = verify_merges_before_success_check [OF v2 n(2) d(2) m2, THEN conjunct2, rule_format, OF p2]
  from a b t show ?thesis by simp
qed

text \<open>
  The claim as written fails: here the signature outcome has \<^verbatim>\<open>success = false\<close> and the
  result is the parser's \<^verbatim>\<open>malformed\<close> error, not \<^verbatim>\<open>unauthorized\<close>.
\<close>

theorem verify_parse_failure_despite_failed_signature:
  "message_verify unsignedExternals unclaimedMessage ''0xsig'' None
     = Returned (Resolved (failedResponse unclaimedMessage))
   \<and> \<not> success (failedResponse unclaimedMessage)
   \<and> verify unsignedExternals ''n1'' ''example.com'' () ''0xsig'' (Some (resolver 42))
     = ([MessageVerify ''0xsig''],
        Resolved (Inl (ConnectError ''malformed'' (Message ''No fid resource provided''))))"
  by (simp add: verify_defs scenario_defs more_defs)

subsection \<open>Exceptions and rejections\<close>




subsection \<open>The successful run\<close>

text \<open>
  C4. A message that validates, with the expected nonce and domain, a signature outcome
  with \<^verbatim>\<open>success = true\<close>, resources that parse and an oracle resolving with exactly the
  claimed fid, makes \<^verbatim>\<open>verify\<close> resolve with a success value: the outcome's flag and
  data and the parsed resource claims, without the error field.
\<close>

theorem verify_round_trip:
  assumes "validate E msg = Inr m" and "nonce m = n" and "domain m = d"
    and "message_verify E m sig (provider (optionsOrDefault options)) = Returned (Resolved response)"
    and "success response" and "parseResources E (data response) = Inr res"
    and "getFid (optionsOrDefault options) (address (data response))
           = Returned (Resolved (BigInt (fid res)))"
  shows "snd (verify E n d msg sig options)
     = Resolved (Inr \<lparr>success = True, data = data response, \<dots> = res\<rparr>)"
  by (simp add: verify_all_passed [OF assms])

theorem verify_round_trip_witness:
  "snd (verify scenarioExternals ''n1'' ''example.com'' () ''0xsig'' (Some (resolver 42)))
     = Resolved (Inr \<lparr>success = True, data = scenarioMessage, fid = 42\<rparr>)"
proof -
  let ?response = "\<lparr>success = True, data = scenarioMessage, error = None\<rparr>"
  have v: "validate scenarioExternals () = Inr scenarioMessage"
    by (simp add: scenarioExternals_def)
  have n: "nonce scenarioMessage = ''n1''" and d: "domain scenarioMessage = ''example.com''"
    by (simp_all add: scenarioMessage_def)
  have mv: "message_verify scenarioExternals scenarioMessage ''0xsig''
      (provider (optionsOrDefault (Some (resolver 42)))) = Returned (Resolved ?response)"
    by (simp add: scenarioExternals_def)
  have ok: "success ?response" by simp
  have pr: "parseResources scenarioExternals (data ?response) = Inr \<lparr>fid = 42\<rparr>"
    by (simp add: scenarioExternals_def)
  have gf: "getFid (optionsOrDefault (Some (resolver 42))) (address (data ?response))
      = Returned (Resolved (BigInt (fid \<lparr>fid = 42\<rparr>)))"
    by (simp add: optionsOrDefault_def resolver_def BigInt_def)
  from verify_round_trip [OF v n d mv ok pr gf] show ?thesis by simp
qed

subsection \<open>Ownership\<close>

text \<open>
  C5. With a valid signature and an oracle that resolves with a fid other than the claimed
  one, \<^verbatim>\<open>verifyFidOwner\<close> returns an ok value: the response with \<^verbatim>\<open>success\<close> set to false
  and a \<^verbatim>\<open>SiweError\<close> whose type names the signer and the claimed fid, whose
  \<^verbatim>\<open>expected\<close> is the claimed and whose \<^verbatim>\<open>received\<close> is the resolved fid. \<^verbatim>\<open>verify\<close>
  then resolves with an \<^verbatim>\<open>unauthorized\<close> error whose message is that type: it mentions
  the claimed fid.
\<close>

theorem verify_fid_mismatch_unauthorized:
  assumes "validate E msg = Inr m" and "nonce m = n" and "domain m = d"
    and "message_verify E m sig (provider (optionsOrDefault options)) = Returned (Resolved response)"
    and "success response" and "parseResources E (data response) = Inr res"
    and "getFid (optionsOrDefault options) (address (data response)) = Returned (Resolved f)"
    and "f \<noteq> BigInt (fid res)"
  shows "snd (verifyFidOwner (SiweResponse.extend response res) (getFid (optionsOrDefault options)))
       = Resolved (Inr ((SiweResponse.extend response res)
           \<lparr>success := False,
            error := Some (SiweError
              (''Invalid resource: signer '' @ address (data response) @ '' does not own fid ''
                 @ nat_toString (fid res) @ ''.'')
              (Some (nat_toString (fid res))) (Some (bigint_toString f)))\<rparr>))
     \<and> snd (verify E n d msg sig options)
       = Resolved (Inl (ConnectError ''unauthorized''
           (Message (''Invalid resource: signer '' @ address (data response) @ '' does not own fid ''
                 @ nat_toString (fid res) @ ''.''))))
     \<and> sublist (nat_toString (fid res))
          (''Invalid resource: signer '' @ address (data response) @ '' does not own fid ''
                 @ nat_toString (fid res) @ ''.'')"
proof (intro conjI)
  show "snd (verifyFidOwner (SiweResponse.extend response res) (getFid (optionsOrDefault options)))
       = Resolved (Inr ((SiweResponse.extend response res)
           \<lparr>success := False,
            error := Some (SiweError
              (''Invalid resource: signer '' @ address (data response) @ '' does not own fid ''
                 @ nat_toString (fid res) @ ''.'')
              (Some (nat_toString (fid res))) (Some (bigint_toString f)))\<rparr>))"
    using assms by (simp add: verifyFidOwner_def ownershipError_def extend_fields Let_def)
  show "snd (verify E n d msg sig options)
       = Resolved (Inl (ConnectError ''unauthorized''
           (Message (''Invalid resource: signer '' @ address (data response) @ '' does not own fid ''
                 @ nat_toString (fid res) @ ''.''))))"
    using assms
      verifyOwnership_mismatch [of "getFid (optionsOrDefault options)" "SiweResponse.extend response res" f]
    by (simp add: verify_validated verifySigned_success extend_fields ownershipError_def)
  show "sublist (nat_toString (fid res))
          (''Invalid resource: signer '' @ address (data response) @ '' does not own fid ''
                 @ nat_toString (fid res) @ ''.'')"
  proof -
    have "sublist (nat_toString (fid res))
      ((''Invalid resource: signer '' @ address (data response) @ '' does not own fid '')
         @ nat_toString (fid res) @ ''.'')"
      by (rule sublist_appendI)
    then show ?thesis by (simp only: append_assoc)
  qed
qed

theorem verify_fid_mismatch_unauthorized_witness:
  "snd (verifyFidOwner
          (SiweResponse.extend \<lparr>success = True, data = scenarioMessage, error = None\<rparr> \<lparr>fid = 42\<rparr>)
          (getFid (optionsOrDefault (Some (resolver 43)))))
     = Resolved (Inr \<lparr>success = False, data = scenarioMessage,
         error = Some (SiweError ''Invalid resource: signer 0xA does not own fid 42.''
                   (Some ''42'') (Some ''43'')),
         fid = 42\<rparr>)
   \<and> snd (verify scenarioExternals ''n1'' ''example.com'' () ''0xsig'' (Some (resolver 43)))
     = Resolved (Inl (ConnectError ''unauthorized''
         (Message ''Invalid resource: signer 0xA does not own fid 42.'')))
   \<and> sublist ''42'' ''Invalid resource: signer 0xA does not own fid 42.''"
proof -
  have gf: "getFid (optionsOrDefault (Some (resolver 43)))
      (address (data \<lparr>success = True, data = scenarioMessage, error = None\<rparr>))
      = Returned (Resolved 43)"
    by (simp add: optionsOrDefault_def resolver_def)
  have ne: "(43::int) \<noteq> BigInt (fid \<lparr>fid = 42\<rparr>)"
    by (simp add: BigInt_def)
  from verify_fid_mismatch_unauthorized [OF scenario_pipeline(1-6) gf ne, of "''0xsig''"]
  show ?thesis
    by (simp add: scenario_strings SiweResponse.extend_def)
qed

text \<open>
  The claim as written fails: the message of the error does not mention the resolved
  fid, here 43.
\<close>

theorem verify_fid_mismatch_message_omits_resolved_fid:
  "verify scenarioExternals ''n1'' ''example.com'' () ''0xsig'' (Some (resolver 43))
     = ([MessageVerify ''0xsig'', FidVerifier ''0xA'', FidCompare 43 42],
        Resolved (Inl (ConnectError ''unauthorized''
          (Message ''Invalid resource: signer 0xA does not own fid 42.''))))
   \<and> bigint_toString 43 = ''43''
   \<and> \<not> sublist (bigint_toString 43) ''Invalid resource: signer 0xA does not own fid 42.''"
proof -
  have "bigint_toString 43 = ''43''"
    by (simp add: bigint_toString_def nat_toString.simps)
  moreover have "\<not> sublist ''43'' ''Invalid resource: signer 0xA does not own fid 42.''"
    by (simp add: sublist_Cons_right)
  ultimately show ?thesis
    by (simp add: scenario_mismatch)
qed

text \<open>
  C6. When the pipeline reaches the oracle and the oracle's promise rejects,
  \<^verbatim>\<open>verify\<close> resolves with an \<^verbatim>\<open>unavailable\<close> error wrapping the cause, and the resolved
  and the claimed fid are never compared.
\<close>

theorem verify_oracle_rejection_unavailable:
  assumes "validate E msg = Inr m" and "nonce m = n" and "domain m = d"
    and "message_verify E m sig (provider (optionsOrDefault options)) = Returned (Resolved response)"
    and "success response" and "parseResources E (data response) = Inr res"
    and "getFid (optionsOrDefault options) (address (data response)) = Returned (Rejected e)"
  shows "verify E n d msg sig options
       = ([MessageVerify sig, FidVerifier (address (data response))],
          Resolved (Inl (ConnectError ''unavailable'' (Cause e))))
     \<and> verifyFidOwner (SiweResponse.extend response res) (getFid (optionsOrDefault options))
       = ([FidVerifier (address (data response))],
          Resolved (Inl (ConnectError ''unavailable'' (Cause e))))
     \<and> (\<forall>resolved claimed. FidCompare resolved claimed \<notin> set (fst (verify E n d msg sig options)))"
proof -
  have v: "verify E n d msg sig options
       = ([MessageVerify sig, FidVerifier (address (data response))],
          Resolved (Inl (ConnectError ''unavailable'' (Cause e))))"
    using assms by (rule verify_oracle_rejected)
  have "verifyFidOwner (SiweResponse.extend response res) (getFid (optionsOrDefault options))
       = ([FidVerifier (address (data response))],
          Resolved (Inl (ConnectError ''unavailable'' (Cause e))))"
    using assms(7) by (simp add: verifyFidOwner_def extend_fields)
  with v show ?thesis by simp
qed

theorem verify_oracle_rejection_unavailable_witness:
  "verify scenarioExternals ''n1'' ''example.com'' () ''0xsig'' (Some rejectingOptions)
       = ([MessageVerify ''0xsig'', FidVerifier ''0xA''],
          Resolved (Inl (ConnectError ''unavailable'' (Cause (JsError ''request timed out'')))))
   \<and> (\<forall>resolved claimed. FidCompare resolved claimed
         \<notin> set (fst (verify scenarioExternals ''n1'' ''example.com'' () ''0xsig'' (Some rejectingOptions))))"
proof -
  have gf: "getFid (optionsOrDefault (Some rejectingOptions))
      (address (data \<lparr>success = True, data = scenarioMessage, error = None\<rparr>))
      = Returned (Rejected (JsError ''request timed out''))"
    by (simp add: optionsOrDefault_def rejectingOptions_def)
  note inst = verify_oracle_rejection_unavailable [OF scenario_pipeline(1-6) gf, of "''0xsig''"]
  from inst [THEN conjunct1] inst [THEN conjunct2, THEN conjunct2]
  show ?thesis by (simp add: scenario_strings)
qed

subsection \<open>Nonce and domain\<close>

text \<open>
  C7. For a message that validates: a nonce other than the expected one makes \<^verbatim>\<open>verify\<close>
  resolve with \<^verbatim>\<open>unauthorized\<close>, \<^verbatim>\<open>Invalid nonce\<close>; the expected nonce with a domain other
  than the expected one makes it resolve with \<^verbatim>\<open>unauthorized\<close>, \<^verbatim>\<open>Invalid domain\<close>. The
  comparison is equality of strings; neither the signature routine nor the oracle is
  called.
\<close>

theorem verify_nonce_then_domain:
  assumes "validate E msg = Inr m"
  shows "(nonce m \<noteq> n \<longrightarrow>
            verify E n d msg sig options
              = ([], Resolved (Inl (ConnectError ''unauthorized'' (Message ''Invalid nonce'')))))
       \<and> (nonce m = n \<and> domain m \<noteq> d \<longrightarrow>
            verify E n d msg sig options
              = ([], Resolved (Inl (ConnectError ''unauthorized'' (Message ''Invalid domain'')))))"
  using assms by (simp add: verify_bad_nonce verify_bad_domain)

theorem verify_nonce_then_domain_witness:
  "verify scenarioExternals ''N1'' ''example.com'' () ''0xsig'' (Some (resolver 42))
       = ([], Resolved (Inl (ConnectError ''unauthorized'' (Message ''Invalid nonce''))))
   \<and> verify scenarioExternals ''n1'' ''Example.com'' () ''0xsig'' (Some (resolver 42))
       = ([], Resolved (Inl (ConnectError ''unauthorized'' (Message ''Invalid domain''))))"
proof -
  have a: "nonce scenarioMessage \<noteq> ''N1''"
    and b: "nonce scenarioMessage = ''n1'' \<and> domain scenarioMessage \<noteq> ''Example.com''"
    by (simp_all add: scenarioMessage_def)
  note v = scenario_pipeline(1)
  from verify_nonce_then_domain [OF v, THEN conjunct1, rule_format, OF a]
    verify_nonce_then_domain [OF v, THEN conjunct2, rule_format, OF b]
  show ?thesis by (intro conjI)
qed

text \<open>
  The claim as written fails for the domain: when the nonce differs too, the nonce is
  checked first and the message is \<^verbatim>\<open>Invalid nonce\<close>.
\<close>

theorem verify_invalid_nonce_reported_first:
  "validate scenarioExternals () = Inr scenarioMessage
   \<and> domain scenarioMessage \<noteq> ''other.com''
   \<and> verify scenarioExternals ''n2'' ''other.com'' () ''0xsig'' (Some (resolver 42))
       = ([], Resolved (Inl (ConnectError ''unauthorized'' (Message ''Invalid nonce''))))"
  by (simp add: verify_defs scenario_defs)

subsection \<open>Comparing fids\<close>

text \<open>
  C8. \<^verbatim>\<open>verifyFidOwner\<close> leaves the response as it is exactly when the resolved fid is
  the integer the message claims, however large; the ownership check passes if and only
  if they are equal; and the claimed fid 0 with an oracle resolving with 0 is a
  successful verification.
\<close>

theorem verifyFidOwner_exact_comparison:
  "snd (verifyFidOwner response (\<lambda>_. Returned (Resolved f)))
     = Resolved (Inr (if f = int (fid (SiweResponse.more response)) then response
          else response\<lparr>success := False, error := Some (ownershipError response f)\<rparr>))
   \<and> (success response \<longrightarrow>
        (snd (verifyOwnership response (\<lambda>_. Returned (Resolved f)))
           = Resolved (Inr (omitError response)))
        = (f = int (fid (SiweResponse.more response))))
   \<and> (\<forall>m signed res. validate E msg = Inr m \<and> nonce m = n \<and> domain m = d \<and>
        message_verify E m sig (provider (optionsOrDefault options)) = Returned (Resolved signed) \<and>
        success signed \<and> parseResources E (data signed) = Inr res \<and> fid res = 0 \<and>
        getFid (optionsOrDefault options) (address (data signed)) = Returned (Resolved 0) \<longrightarrow>
        snd (verify E n d msg sig options)
          = Resolved (Inr \<lparr>success = True, data = data signed, \<dots> = res\<rparr>))"
proof (intro conjI allI impI)
  show "snd (verifyFidOwner response (\<lambda>_. Returned (Resolved f)))
     = Resolved (Inr (if f = int (fid (SiweResponse.more response)) then response
          else response\<lparr>success := False, error := Some (ownershipError response f)\<rparr>))"
    by (simp add: verifyFidOwner_def BigInt_def Let_def)
next
  assume ok: "success response"
  show "(snd (verifyOwnership response (\<lambda>_. Returned (Resolved f)))
           = Resolved (Inr (omitError response)))
        = (f = int (fid (SiweResponse.more response)))"
  proof (cases "f = BigInt (fid (SiweResponse.more response))")
    case True
    with ok show ?thesis
      using verifyOwnership_match [of "\<lambda>_. Returned (Resolved f)" response f]
      by (simp add: BigInt_def)
  next
    case False
    then show ?thesis
      using verifyOwnership_mismatch [of "\<lambda>_. Returned (Resolved f)" response f]
      by (simp add: BigInt_def)
  qed
next
  fix m signed res
  assume a: "validate E msg = Inr m \<and> nonce m = n \<and> domain m = d \<and>
        message_verify E m sig (provider (optionsOrDefault options)) = Returned (Resolved signed) \<and>
        success signed \<and> parseResources E (data signed) = Inr res \<and> fid res = 0 \<and>
        getFid (optionsOrDefault options) (address (data signed)) = Returned (Resolved 0)"
  then have "getFid (optionsOrDefault options) (address (data signed))
      = Returned (Resolved (BigInt (fid res)))"
    by (simp add: BigInt_def)
  with a show "snd (verify E n d msg sig options)
          = Resolved (Inr \<lparr>success = True, data = data signed, \<dots> = res\<rparr>)"
    using verify_all_passed [of E msg m n d sig options signed res] by simp
qed

theorem verifyFidOwner_exact_comparison_witness:
  "snd (verifyFidOwner largeFidResponse (\<lambda>_. Returned (Resolved 9007199254740993)))
     = Resolved (Inr (largeFidResponse\<lparr>success := False,
         error := Some (ownershipError largeFidResponse 9007199254740993)\<rparr>))
   \<and> snd (verifyOwnership largeFidResponse (\<lambda>_. Returned (Resolved 9007199254740993)))
       \<noteq> Resolved (Inr (omitError largeFidResponse))
   \<and> snd (verify zeroFidExternals ''n1'' ''example.com'' () ''0xsig'' (Some (resolver 0)))
     = Resolved (Inr \<lparr>success = True, data = scenarioMessage, fid = 0\<rparr>)"
proof -
  let ?signed = "\<lparr>success = True, data = scenarioMessage, error = None\<rparr>"
  note large = verifyFidOwner_exact_comparison [of largeFidResponse 9007199254740993]
  have ne: "(9007199254740993::int) \<noteq> int (fid (SiweResponse.more largeFidResponse))"
    and ok: "success largeFidResponse"
    by (simp_all add: largeFidResponse_def)
  have zero: "validate zeroFidExternals () = Inr scenarioMessage \<and> nonce scenarioMessage = ''n1'' \<and>
      domain scenarioMessage = ''example.com'' \<and>
      message_verify zeroFidExternals scenarioMessage ''0xsig''
        (provider (optionsOrDefault (Some (resolver 0)))) = Returned (Resolved ?signed) \<and>
      success ?signed \<and> parseResources zeroFidExternals (data ?signed) = Inr \<lparr>fid = 0\<rparr> \<and>
      fid \<lparr>fid = 0\<rparr> = 0 \<and>
      getFid (optionsOrDefault (Some (resolver 0))) (address (data ?signed)) = Returned (Resolved 0)"
    by (simp add: zeroFidExternals_def scenarioExternals_def scenarioMessage_def
        optionsOrDefault_def resolver_def)
  note z = verifyFidOwner_exact_comparison [of _ _ zeroFidExternals "()" "''n1''" "''example.com''" "''0xsig''"
      "Some (resolver 0)", THEN conjunct2, THEN conjunct2, rule_format, OF zero]
  from large [THEN conjunct1] large [THEN conjunct2, THEN conjunct1, rule_format, OF ok] ne z
  show ?thesis by simp
qed

subsection \<open>The default oracle\<close>

text \<open>
  C9. Without the \<^verbatim>\<open>options\<close> argument the oracle is \<^verbatim>\<open>voidVerifyFid\<close>, whose promise
  always rejects with \<^verbatim>\<open>Not implemented: Must provide an fid verifier\<close>; \<^verbatim>\<open>verify\<close> then
  never resolves with a success value, and a run that reaches the ownership check resolves
  with an \<^verbatim>\<open>unavailable\<close> error wrapping that cause.
\<close>

theorem verify_default_oracle_rejects:
  fixes E :: "('i, 'p) externals"
  shows "getFid (optionsOrDefault (None :: 'p SignInOpts option)) = voidVerifyFid
     \<and> (\<forall>custody. voidVerifyFid custody
           = Returned (Rejected (JsError ''Not implemented: Must provide an fid verifier'')))
     \<and> (\<forall>r. snd (verify E n d msg sig None) \<noteq> Resolved (Inr r))
     \<and> (\<forall>m response res. validate E msg = Inr m \<and> nonce m = n \<and> domain m = d \<and>
           message_verify E m sig None = Returned (Resolved response) \<and>
           success response \<and> parseResources E (data response) = Inr res \<longrightarrow>
           verify E n d msg sig None
             = ([MessageVerify sig, FidVerifier (address (data response))],
                Resolved (Inl (ConnectError ''unavailable''
                  (Cause (JsError ''Not implemented: Must provide an fid verifier''))))))"
proof (intro conjI allI impI)
  show "getFid (optionsOrDefault (None :: 'p SignInOpts option)) = voidVerifyFid"
    by (simp add: optionsOrDefault_def defaultOptions_def)
next
  fix custody
  show "voidVerifyFid custody
      = Returned (Rejected (JsError ''Not implemented: Must provide an fid verifier''))"
    by (simp add: voidVerifyFid_def)
next
  fix r
  show "snd (verify E n d msg sig None) \<noteq> Resolved (Inr r)"
  proof
    assume "snd (verify E n d msg sig None) = Resolved (Inr r)"
    from verify_success_only_if [OF this] obtain m response res where
      "validate E msg = Inr m \<and> nonce m = n \<and> domain m = d \<and>
       message_verify E m sig (provider (optionsOrDefault (None :: 'p SignInOpts option)))
         = Returned (Resolved response) \<and>
       success response \<and> parseResources E (data response) = Inr res \<and>
       getFid (optionsOrDefault (None :: 'p SignInOpts option)) (address (data response))
         = Returned (Resolved (BigInt (fid res))) \<and>
       r = omitError (SiweResponse.extend response res)"
      by (elim exE)
    then show False
      by (simp add: optionsOrDefault_def defaultOptions_def voidVerifyFid_def)
  qed
next
  fix m response res
  assume a: "validate E msg = Inr m \<and> nonce m = n \<and> domain m = d \<and>
           message_verify E m sig None = Returned (Resolved response) \<and>
           success response \<and> parseResources E (data response) = Inr res"
  have p: "provider (optionsOrDefault (None :: 'p SignInOpts option)) = None"
    by (simp add: optionsOrDefault_def defaultOptions_def)
  have g: "getFid (optionsOrDefault (None :: 'p SignInOpts option)) (address (data response))
      = Returned (Rejected (JsError ''Not implemented: Must provide an fid verifier''))"
    by (simp add: optionsOrDefault_def defaultOptions_def voidVerifyFid_def)
  from a p g show "verify E n d msg sig None
             = ([MessageVerify sig, FidVerifier (address (data response))],
                Resolved (Inl (ConnectError ''unavailable''
                  (Cause (JsError ''Not implemented: Must provide an fid verifier'')))))"
    using verify_oracle_rejected [of E msg m n d sig None response res]
    by simp
qed

theorem verify_default_oracle_rejects_witness:
  "verify scenarioExternals ''n1'' ''example.com'' () ''0xsig'' None
     = ([MessageVerify ''0xsig'', FidVerifier ''0xA''],
        Resolved (Inl (ConnectError ''unavailable''
          (Cause (JsError ''Not implemented: Must provide an fid verifier'')))))"
proof -
  have "validate scenarioExternals () = Inr scenarioMessage \<and> nonce scenarioMessage = ''n1'' \<and>
      domain scenarioMessage = ''example.com'' \<and>
      message_verify scenarioExternals scenarioMessage ''0xsig'' None
        = Returned (Resolved \<lparr>success = True, data = scenarioMessage, error = None\<rparr>) \<and>
      success \<lparr>success = True, data = scenarioMessage, error = None\<rparr> \<and>
      parseResources scenarioExternals (data \<lparr>success = True, data = scenarioMessage, error = None\<rparr>)
        = Inr \<lparr>fid = 42\<rparr>"
    by (simp add: scenarioExternals_def scenarioMessage_def)
  from verify_default_oracle_rejects [of scenarioExternals "''n1''" "''example.com''" "()" "''0xsig''",
      THEN conjunct2, THEN conjunct2, THEN conjunct2, rule_format, OF this]
  show ?thesis by (simp add: scenario_strings)
qed

subsection \<open>The fields of the response\<close>

text \<open>
  C10. A success value of \<^verbatim>\<open>verify\<close> is the merged outcome without its error field: the
  \<^verbatim>\<open>success\<close> flag, which is true, the whole \<^verbatim>\<open>data\<close> record and the resource claims are
  kept, and putting the error field back gives the merged outcome.
\<close>

theorem verify_response_omits_only_error:
  assumes "snd (verify E n d msg sig options) = Resolved (Inr r)"
  shows "\<exists>m response res.
           validate E msg = Inr m \<and>
           message_verify E m sig (provider (optionsOrDefault options)) = Returned (Resolved response) \<and>
           parseResources E (data response) = Inr res \<and>
           r = omitError (SiweResponse.extend response res) \<and>
           success r \<and> success r = success response \<and>
           data r = data response \<and>
           SiweResponseOmitError.more r = res \<and>
           SiweResponse.extend response res
             = \<lparr>success = success r, data = data r, error = error response,
                \<dots> = SiweResponseOmitError.more r\<rparr>"
proof -
  from verify_success_only_if [OF assms] obtain m response res where
    a: "validate E msg = Inr m \<and> nonce m = n \<and> domain m = d \<and>
        message_verify E m sig (provider (optionsOrDefault options)) = Returned (Resolved response) \<and>
        success response \<and> parseResources E (data response) = Inr res \<and>
        getFid (optionsOrDefault options) (address (data response))
          = Returned (Resolved (BigInt (fid res))) \<and>
        r = omitError (SiweResponse.extend response res)"
    by (elim exE)
  then have "success r \<and> success r = success response \<and> data r = data response \<and>
      SiweResponseOmitError.more r = res \<and>
      SiweResponse.extend response res
        = \<lparr>success = success r, data = data r, error = error response,
           \<dots> = SiweResponseOmitError.more r\<rparr>"
    by (simp add: omitError_def SiweResponse.extend_def)
  with a show ?thesis by blast
qed

theorem verify_response_omits_only_error_witness:
  "\<exists>m response res.
     validate scenarioExternals () = Inr m \<and>
     message_verify scenarioExternals m ''0xsig'' (provider (optionsOrDefault (Some (resolver 42))))
       = Returned (Resolved response) \<and>
     parseResources scenarioExternals (data response) = Inr res \<and>
     scenarioResponse = omitError (SiweResponse.extend response res) \<and>
     success scenarioResponse \<and> success scenarioResponse = success response \<and>
     data scenarioResponse = data response \<and>
     SiweResponseOmitError.more scenarioResponse = res \<and>
     SiweResponse.extend response res
       = \<lparr>success = success scenarioResponse, data = data scenarioResponse, error = error response,
          \<dots> = SiweResponseOmitError.more scenarioResponse\<rparr>"
proof -
  have "snd (verify scenarioExternals ''n1'' ''example.com'' () ''0xsig'' (Some (resolver 42)))
     = Resolved (Inr scenarioResponse)"
    by (simp add: scenario_success)
  then show ?thesis by (rule verify_response_omits_only_error)
qed

end
